theory Spec2Isabelle
  imports Main
begin

section \<open>Python values, exceptions and the host toolkit\<close>

text \<open>
  The module is a thin layer over a GUI toolkit. Its own code (QClickEdit.py) is embedded
  function by function; the toolkit's native controls are represented by the part of their
  state the module reads and writes, with the toolkit's documented behaviour for every call
  the module makes.
\<close>

text \<open>A \<open>datetime.time\<close> object.\<close>

datatype pytime = Time (hour: nat) (minute: nat) (second: nat) (microsecond: nat)

text \<open>
  The toolkit's time of day: one number, the milliseconds since midnight, or \<open>-1\<close>
  for a null time.
\<close>

datatype qtime = Mds int

definition QTime :: "int \<Rightarrow> int \<Rightarrow> int \<Rightarrow> int \<Rightarrow> qtime" where
  "QTime h m s ms =
     (if 0 \<le> h \<and> h < 24 \<and> 0 \<le> m \<and> m < 60 \<and> 0 \<le> s \<and> s < 60 \<and> 0 \<le> ms \<and> ms < 1000
      then Mds (((h * 60 + m) * 60 + s) * 1000 + ms) else Mds (- 1))"

definition isValid :: "qtime \<Rightarrow> bool" where
  "isValid q = (case q of Mds n \<Rightarrow> 0 \<le> n \<and> n < 86400000)"

text \<open>\<open>QTime(value)\<close> for a \<open>datetime.time\<close>: the binding's conversion.\<close>

definition QTime_of_time :: "pytime \<Rightarrow> qtime" where
  "QTime_of_time t =
     QTime (int (hour t)) (int (minute t)) (int (second t)) (int (microsecond t div 1000))"

text \<open>
  The arguments a caller can pass. \<open>PObj\<close> is an object of any other class, named by
  a tag.
\<close>

datatype pyval =
    PStr string
  | PInt int
  | PBool bool
  | PNone
  | PTime pytime
  | PQTime qtime
  | PList "pyval list"
  | PObj string

datatype pyerror = TypeError string | AttributeError string | IndexError string

text \<open>
  A call either returns or raises; both leave a state behind, the one reached when the
  call ended.
\<close>

datatype 'a outcome = Returns 'a | Raises pyerror 'a

text \<open>
  What the host supplies and the module only calls: \<open>str()\<close> of an object that is not
  a string, \<open>QTime.toString(format)\<close>, and the display format a fresh time control
  starts with.
\<close>

record host =
  str_other :: "pyval \<Rightarrow> string"
  toString :: "qtime \<Rightarrow> string \<Rightarrow> string"
  locale_format :: string

text \<open>\<open>str(v)\<close>: a string is its own text.\<close>

definition py_str :: "host \<Rightarrow> pyval \<Rightarrow> string" where
  "py_str h v = (case v of PStr s \<Rightarrow> s | _ \<Rightarrow> str_other h v)"

definition is_str :: "pyval \<Rightarrow> bool" where
  "is_str v = (case v of PStr s \<Rightarrow> True | _ \<Rightarrow> False)"

section \<open>The native controls\<close>

text \<open>
  \<^item> spin box: value, minimum, maximum (a fresh one holds 0 in the range 0..99);
    \<open>setValue\<close> forces the value into the range;
  \<^item> line edit: text and maximum length (32767 when fresh); \<open>setText\<close> cuts the text
    at the maximum length;
  \<^item> time edit: time and display format; \<open>setTime\<close> ignores a time that is not valid;
  \<^item> combo box: items and current index (\<open>-1\<close>: no current item).
  Each setter reports a change only when the stored value differs from the old one.
\<close>

datatype control =
    SpinBox int int int
  | LineEdit string nat
  | TimeEdit qtime string
  | ComboBox "string list" int

datatype variant = SpinBoxV | LineEditV | TimeEditV | ComboBoxV

definition widget_new :: "host \<Rightarrow> variant \<Rightarrow> control" where
  "widget_new h cls =
     (case cls of
        SpinBoxV \<Rightarrow> SpinBox 0 0 99
      | LineEditV \<Rightarrow> LineEdit [] 32767
      | TimeEditV \<Rightarrow> TimeEdit (QTime 0 0 0 0) (locale_format h)
      | ComboBoxV \<Rightarrow> ComboBox [] (- 1))"

definition bound :: "int \<Rightarrow> int \<Rightarrow> int \<Rightarrow> int" where
  "bound lo v hi = max lo (min hi v)"

fun findText :: "string list \<Rightarrow> string \<Rightarrow> int" where
  "findText [] s = - 1"
| "findText (x # xs) s =
     (if x = s then 0 else (let r = findText xs s in if r < 0 then - 1 else r + 1))"

definition currentText :: "string list \<Rightarrow> int \<Rightarrow> string" where
  "currentText its c = (if 0 \<le> c \<and> c < int (length its) then its ! nat c else [])"

definition valid_index :: "string list \<Rightarrow> int \<Rightarrow> int" where
  "valid_index its i = (if 0 \<le> i \<and> i < int (length its) then i else - 1)"

section \<open>A QClickEdit widget\<close>

type_synonym win = nat

text \<open>
  The attributes of one widget: \<open>suffix\<close>, the optional prefix label, the caption and
  visibility of \<open>self.text\<close>, the control \<open>self.input_widget\<close> and its visibility,
  \<open>self._current_value\<close> (absent until a class assigns it), \<open>self._display_format\<close>
  (time variant), and the top-level window the application places the widget in (never
  read by the module).
\<close>

record clickedit =
  suffix :: pyval
  prefix_label :: "string option"
  label_text :: string
  text_visible :: bool
  input_widget :: control
  input_visible :: bool
  current_value :: "pyval option"
  display_format :: string
  window :: win

text \<open>
  \<open>_addSuffix\<close>. The suffix has passed the constructor's check, so it is a string or
  False; only a non-empty string is truthy.
\<close>

definition addSuffix :: "host \<Rightarrow> clickedit \<Rightarrow> pyval \<Rightarrow> string" where
  "addSuffix h w cv =
     (case suffix w of
        PStr s \<Rightarrow> (if s \<noteq> [] then py_str h cv @ '' '' @ s else py_str h cv)
      | _ \<Rightarrow> py_str h cv)"

text \<open>\<open>getValue\<close> of the four classes; the class of a widget is the kind of its control.\<close>

definition getValue :: "clickedit \<Rightarrow> pyval" where
  "getValue w =
     (case input_widget w of
        SpinBox v lo hi \<Rightarrow> PInt v
      | LineEdit t n \<Rightarrow> PStr t
      | TimeEdit q f \<Rightarrow> PQTime q
      | ComboBox its c \<Rightarrow> PStr (currentText its c))"

text \<open>\<open>_updateCurrentValue\<close> of the four classes: the slot of the control's change signal.\<close>

definition updateCurrentValue :: "host \<Rightarrow> clickedit \<Rightarrow> clickedit" where
  "updateCurrentValue h w =
     (case input_widget w of
        SpinBox v lo hi \<Rightarrow> w\<lparr>label_text := addSuffix h w (PInt v)\<rparr>
      | LineEdit t n \<Rightarrow> w\<lparr>label_text := addSuffix h w (PStr t)\<rparr>
      | TimeEdit q f \<Rightarrow> w\<lparr>label_text := toString h q (display_format w)\<rparr>
      | ComboBox its c \<Rightarrow> w\<lparr>label_text := currentText its c\<rparr>)"

text \<open>A control is stored; its change signal runs the slot when the value changed.\<close>

definition store :: "host \<Rightarrow> control \<Rightarrow> bool \<Rightarrow> clickedit \<Rightarrow> clickedit" where
  "store h c changed w =
     (if changed then updateCurrentValue h (w\<lparr>input_widget := c\<rparr>)
      else w\<lparr>input_widget := c\<rparr>)"

text \<open>
  \<open>QTimeEdit._inputCheck\<close>: its only effect is the assignment to
  \<open>self._current_value\<close>, so it is given as the value assigned, or the error raised.
\<close>

definition time_error :: string where
  "time_error = ''current_time must be datetime.time or QTime object, or set to False''"

definition QTimeEdit_inputCheck :: "pyval \<Rightarrow> pyerror + pyval" where
  "QTimeEdit_inputCheck v =
     (case v of
        PTime t \<Rightarrow> Inr (PQTime (QTime_of_time t))
      | PQTime q \<Rightarrow> Inr (PQTime q)
      | PBool b \<Rightarrow> (if \<not> b then Inr (PQTime (QTime 0 0 0 0)) else Inl (TypeError time_error))
      | _ \<Rightarrow> Inl (TypeError time_error))"

text \<open>
  \<open>setValue\<close> of the four classes.
  \<^item> QSpinBox: caption first, then the control; the binding takes a Python integer (a bool
    is one) and raises its own TypeError for anything else.
  \<^item> QLineEdit: the control gets \<open>str(value)\<close>.
  \<^item> QTimeEdit: \<open>_inputCheck\<close>, then \<open>value.toString\<close> and \<open>setTime(value)\<close> on the
    argument itself; only a QTime has \<open>toString\<close>, and the one value that passes the
    check and is neither a QTime nor a \<open>datetime.time\<close> is False.
  \<^item> QComboBox: the current index becomes \<open>findText(str(v))\<close>, then the caption is
    \<open>str(v)\<close>.
\<close>

definition binding_error :: string where
  "binding_error = ''called with wrong argument types''"

definition setValue :: "host \<Rightarrow> pyval \<Rightarrow> clickedit \<Rightarrow> clickedit outcome" where
  "setValue h v w =
     (case input_widget w of
        SpinBox x lo hi \<Rightarrow>
          (let w1 = w\<lparr>label_text := addSuffix h w v\<rparr> in
           case v of
             PInt i \<Rightarrow> Returns (store h (SpinBox (bound lo i hi) lo hi) (bound lo i hi \<noteq> x) w1)
           | PBool b \<Rightarrow>
               (let i = (if b then 1 else 0) in
                Returns (store h (SpinBox (bound lo i hi) lo hi) (bound lo i hi \<noteq> x) w1))
           | _ \<Rightarrow> Raises (TypeError binding_error) w1)
      | LineEdit t n \<Rightarrow>
          (let current_value = py_str h v in
           Returns (store h (LineEdit (take n current_value) n) (take n current_value \<noteq> t) w))
      | TimeEdit t f \<Rightarrow>
          (case QTimeEdit_inputCheck v of
             Inl e \<Rightarrow> Raises e w
           | Inr cv \<Rightarrow>
               (let w1 = w\<lparr>current_value := Some cv\<rparr> in
                case v of
                  PQTime q \<Rightarrow>
                    (let w2 = w1\<lparr>label_text := toString h q ''h:mm:ss a''\<rparr> in
                     if isValid q then Returns (store h (TimeEdit q f) (q \<noteq> t) w2)
                     else Returns w2)
                | PTime d \<Rightarrow>
                    Raises (AttributeError ''datetime.time object has no attribute toString'') w1
                | _ \<Rightarrow> Raises (AttributeError ''bool object has no attribute toString'') w1))
      | ComboBox its c \<Rightarrow>
          (let value_str = py_str h v;
               i = valid_index its (findText its value_str);
               w1 = store h (ComboBox its i) (i \<noteq> c) w
           in Returns (w1\<lparr>label_text := value_str\<rparr>)))"

text \<open>\<open>_showInputField\<close> and \<open>_showText\<close>.\<close>

definition showInputField :: "clickedit \<Rightarrow> clickedit" where
  "showInputField w = w\<lparr>text_visible := False, input_visible := True\<rparr>"

definition showText :: "clickedit \<Rightarrow> clickedit" where
  "showText w = w\<lparr>input_visible := False, text_visible := True\<rparr>"

text \<open>
  \<open>_createInputWidget\<close>: the control of the class, hidden. \<open>_createTextWidget\<close>: the
  flat button, captioned with the control's value.
\<close>

definition createInputWidget :: "host \<Rightarrow> variant \<Rightarrow> clickedit \<Rightarrow> clickedit" where
  "createInputWidget h cls w = w\<lparr>input_widget := widget_new h cls, input_visible := False\<rparr>"

definition createTextWidget :: "host \<Rightarrow> clickedit \<Rightarrow> clickedit" where
  "createTextWidget h w = w\<lparr>label_text := addSuffix h w (getValue w), text_visible := True\<rparr>"

section \<open>The class-wide state\<close>

text \<open>
  \<open>_registry\<close> (a widget is known by its position in it), \<open>_top_widgets_modified\<close>,
  and the \<open>mousePressEvent\<close> attribute of every top-level widget: the handler it came
  with, or \<open>partial(self._topWidgetMousePressEvent, tw, original_MPE)\<close>.
\<close>

datatype handler = Original | Patched nat win handler

record qstate =
  registry :: "clickedit list"
  top_widgets_modified :: "win list"
  mousePressEvent :: "win \<Rightarrow> handler"

definition init_state :: qstate where
  "init_state = \<lparr>registry = [], top_widgets_modified = [], mousePressEvent = (\<lambda>tw. Original)\<rparr>"

text \<open>
  \<open>_freezeInputPrecheck\<close>: the loop over the registry. \<open>underMouse i\<close> is what
  \<open>input_widget.underMouse()\<close> answers for the widget at position \<open>i\<close>;
  \<open>input_visible\<close> is what \<open>isVisible()\<close> answers (the windows are on screen).
\<close>

fun freeze_loop :: "(nat \<Rightarrow> bool) \<Rightarrow> nat \<Rightarrow> clickedit list \<Rightarrow> clickedit list" where
  "freeze_loop underMouse i [] = []"
| "freeze_loop underMouse i (w # ws) =
     (if input_visible w \<and> \<not> underMouse i then showText w else w)
       # freeze_loop underMouse (Suc i) ws"

definition freezeInputPrecheck :: "(nat \<Rightarrow> bool) \<Rightarrow> qstate \<Rightarrow> qstate" where
  "freezeInputPrecheck underMouse st = st\<lparr>registry := freeze_loop underMouse 0 (registry st)\<rparr>"

text \<open>
  \<open>_setToEdit\<close> of the widget at position \<open>i\<close>; the time variant then passes its
  display format to the control.
\<close>

definition setDisplayFormat_on_edit :: "clickedit \<Rightarrow> clickedit" where
  "setDisplayFormat_on_edit w =
     (case input_widget w of
        TimeEdit q f \<Rightarrow> w\<lparr>input_widget := TimeEdit q (display_format w)\<rparr>
      | _ \<Rightarrow> w)"

definition setToEdit :: "(nat \<Rightarrow> bool) \<Rightarrow> nat \<Rightarrow> qstate \<Rightarrow> qstate" where
  "setToEdit underMouse i st =
     (if i < length (registry st) then
        (let st1 = freezeInputPrecheck underMouse st
         in st1\<lparr>registry :=
              (registry st1)[i := setDisplayFormat_on_edit (showInputField (registry st1 ! i))]\<rparr>)
      else st)"

text \<open>
  \<open>focusOutEvent\<close>: the toolkit's own handler (no effect on this state), then the sweep.
\<close>

definition focusOutEvent :: "(nat \<Rightarrow> bool) \<Rightarrow> qstate \<Rightarrow> qstate" where
  "focusOutEvent underMouse st = freezeInputPrecheck underMouse st"

text \<open>
  Calling a top-level widget's \<open>mousePressEvent\<close>. \<open>orig\<close> is the handler the widget
  came with; \<open>_topWidgetMousePressEvent\<close> calls the handler it wrapped, then the sweep.
\<close>

fun call_MPE ::
  "(win \<Rightarrow> 'e \<Rightarrow> qstate \<Rightarrow> qstate) \<Rightarrow> (nat \<Rightarrow> bool) \<Rightarrow> win \<Rightarrow> handler \<Rightarrow> 'e \<Rightarrow> qstate \<Rightarrow> qstate"
where
  "call_MPE orig underMouse tw Original event st = orig tw event st"
| "call_MPE orig underMouse tw (Patched self parent original_MPE) event st =
     freezeInputPrecheck underMouse (call_MPE orig underMouse tw original_MPE event st)"

section \<open>Constructors\<close>

text \<open>The loop over \<open>QApplication.topLevelWidgets()\<close> at the end of the constructor.\<close>

fun patch :: "nat \<Rightarrow> win list \<Rightarrow> qstate \<Rightarrow> qstate" where
  "patch self [] st = st"
| "patch self (tw # tws) st =
     (if tw \<in> set (top_widgets_modified st) then patch self tws st
      else patch self tws
        (st\<lparr>top_widgets_modified := top_widgets_modified st @ [tw],
            mousePressEvent := (mousePressEvent st)(tw := Patched self tw (mousePressEvent st tw))\<rparr>))"

definition prefix_error :: string where
  "prefix_error = ''type_of_field argument is a descriptive prefix and must be a string''"

definition suffix_error :: string where
  "suffix_error = ''Suffix must be a string''"

text \<open>
  \<open>QClickEdit.__init__\<close>. \<open>cls\<close>, \<open>cur\<close> and \<open>fmt\<close> are the attributes the subclass
  assigned before the call (\<open>widget_\<close>, \<open>_current_value\<close>, \<open>_display_format\<close>);
  \<open>top_widgets\<close> is what \<open>QApplication.topLevelWidgets()\<close> returns.

  \<open>new_self\<close> is the object after \<open>QWidget.__init__\<close>, the suffix and prefix lines,
  \<open>_createInputWidget\<close> and \<open>_createTextWidget\<close>. The new widget joins the registry
  before its parts are built, so it is there when \<open>setValue\<close> raises.
\<close>

definition new_self ::
  "host \<Rightarrow> variant \<Rightarrow> pyval option \<Rightarrow> string \<Rightarrow> win \<Rightarrow> pyval \<Rightarrow> pyval \<Rightarrow> clickedit" where
  "new_self h cls cur fmt tw type_of_field sfx =
     createTextWidget h (createInputWidget h cls
       \<lparr>suffix = sfx,
        prefix_label =
          (case type_of_field of
             PStr s \<Rightarrow> (if s \<noteq> [] then Some (s @ '': '') else None)
           | _ \<Rightarrow> None),
        label_text = ''-'', text_visible = False,
        input_widget = widget_new h cls, input_visible = False,
        current_value = cur, display_format = fmt, window = tw\<rparr>)"

definition QClickEdit_init ::
  "host \<Rightarrow> variant \<Rightarrow> pyval option \<Rightarrow> string \<Rightarrow> win \<Rightarrow> pyval \<Rightarrow> pyval \<Rightarrow> pyval \<Rightarrow> win list
     \<Rightarrow> qstate \<Rightarrow> qstate outcome" where
  "QClickEdit_init h cls cur fmt tw cv type_of_field sfx top_widgets st =
     (if \<not> (is_str type_of_field \<or> type_of_field = PBool False)
      then Raises (TypeError prefix_error) st
      else if \<not> (is_str sfx \<or> sfx = PBool False)
      then Raises (TypeError suffix_error) st
      else
        (case setValue h cv (new_self h cls cur fmt tw type_of_field sfx) of
           Raises e self2 \<Rightarrow> Raises e (st\<lparr>registry := registry st @ [self2]\<rparr>)
         | Returns self2 \<Rightarrow>
             Returns (patch (length (registry st)) top_widgets
                        (st\<lparr>registry := registry st @ [self2]\<rparr>))))"

text \<open>\<open>QSpinBox.__init__\<close> and \<open>QLineEdit.__init__\<close>.\<close>

definition QSpinBox_init ::
  "host \<Rightarrow> win \<Rightarrow> pyval \<Rightarrow> pyval \<Rightarrow> pyval \<Rightarrow> win list \<Rightarrow> qstate \<Rightarrow> qstate outcome" where
  "QSpinBox_init h tw cv type_of_field sfx top_widgets st =
     QClickEdit_init h SpinBoxV None [] tw cv type_of_field sfx top_widgets st"

definition QLineEdit_init ::
  "host \<Rightarrow> win \<Rightarrow> pyval \<Rightarrow> pyval \<Rightarrow> pyval \<Rightarrow> win list \<Rightarrow> qstate \<Rightarrow> qstate outcome" where
  "QLineEdit_init h tw cv type_of_field sfx top_widgets st =
     QClickEdit_init h LineEditV (Some cv) [] tw cv type_of_field sfx top_widgets st"

text \<open>
  \<open>QTimeEdit.__init__\<close>: the check comes first, the base constructor gets the value it
  assigned and no suffix; the width settings that follow touch no state kept here.
\<close>

definition QTimeEdit_init ::
  "host \<Rightarrow> win \<Rightarrow> pyval \<Rightarrow> pyval \<Rightarrow> string \<Rightarrow> win list \<Rightarrow> qstate \<Rightarrow> qstate outcome" where
  "QTimeEdit_init h tw current_time type_of_field fmt top_widgets st =
     (case QTimeEdit_inputCheck current_time of
        Inl e \<Rightarrow> Raises e st
      | Inr cv \<Rightarrow>
          QClickEdit_init h TimeEditV (Some cv) fmt tw cv type_of_field (PBool False)
            top_widgets st)"

text \<open>
  \<open>QComboBox._inputCheck\<close>: the value it assigns to \<open>self._current_value\<close> (none in
  the branch for a single value) and the items it returns.
\<close>

definition QComboBox_inputCheck :: "host \<Rightarrow> pyval \<Rightarrow> pyerror + (pyval option \<times> string list)" where
  "QComboBox_inputCheck h vals =
     (case vals of
        PList vs \<Rightarrow>
          (case vs of
             [] \<Rightarrow> Inl (IndexError ''list index out of range'')
           | v0 # rest \<Rightarrow> Inr (Some (PStr (py_str h v0)), map (py_str h) vs))
      | _ \<Rightarrow> Inr (None, [py_str h vals]))"

text \<open>The toolkit's \<open>addItem\<close>: the first item of an empty box becomes the current one.\<close>

definition addItem :: "host \<Rightarrow> string \<Rightarrow> clickedit \<Rightarrow> clickedit" where
  "addItem h item w =
     (case input_widget w of
        ComboBox its c \<Rightarrow>
          (let c' = (if its = [] \<and> c < 0 then 0 else c)
           in store h (ComboBox (its @ [item]) c') (c' \<noteq> c) w)
      | _ \<Rightarrow> w)"

fun addItems :: "host \<Rightarrow> string list \<Rightarrow> clickedit \<Rightarrow> clickedit" where
  "addItems h [] w = w"
| "addItems h (item # items) w = addItems h items (addItem h item w)"

text \<open>
  \<open>QComboBox.__init__\<close>: reading \<open>self._current_value\<close> when no branch of the check
  assigned it raises AttributeError.
\<close>

definition QComboBox_init ::
  "host \<Rightarrow> win \<Rightarrow> pyval \<Rightarrow> win list \<Rightarrow> qstate \<Rightarrow> qstate outcome" where
  "QComboBox_init h tw vals top_widgets st =
     (case QComboBox_inputCheck h vals of
        Inl e \<Rightarrow> Raises e st
      | Inr (cur, items) \<Rightarrow>
          (case cur of
             None \<Rightarrow> Raises (AttributeError ''QComboBox object has no attribute _current_value'') st
           | Some cv \<Rightarrow>
               (case QClickEdit_init h ComboBoxV cur [] tw cv (PBool False) (PBool False)
                       top_widgets st of
                  Raises e st1 \<Rightarrow> Raises e st1
                | Returns st1 \<Rightarrow>
                    Returns (st1\<lparr>registry :=
                      (registry st1)[length (registry st) :=
                         addItems h items (registry st1 ! length (registry st))]\<rparr>))))"

section \<open>Events\<close>

text \<open>
  What can happen to the state: a constructor call (with the window the widget ends up in
  and the top-level widgets of that moment), the click on a widget's caption, a control
  losing focus, a mouse press that reaches a top-level widget, and a call of a widget's
  \<open>setValue\<close>. The three user events come with the pointer's position, as
  \<open>underMouse\<close>.
\<close>

datatype ctor =
    NewSpinBox pyval pyval pyval
  | NewLineEdit pyval pyval pyval
  | NewTimeEdit pyval pyval string
  | NewComboBox pyval

datatype 'e event =
    Construct ctor win "win list"
  | Activate nat "nat \<Rightarrow> bool"
  | FocusOut nat "nat \<Rightarrow> bool"
  | MousePress win 'e "nat \<Rightarrow> bool"
  | SetValue nat pyval

definition state_of :: "'a outcome \<Rightarrow> 'a" where
  "state_of r = (case r of Returns s \<Rightarrow> s | Raises e s \<Rightarrow> s)"


definition construct :: "host \<Rightarrow> ctor \<Rightarrow> win \<Rightarrow> win list \<Rightarrow> qstate \<Rightarrow> qstate outcome" where
  "construct h c tw top_widgets st =
     (case c of
        NewSpinBox cv p s \<Rightarrow> QSpinBox_init h tw cv p s top_widgets st
      | NewLineEdit cv p s \<Rightarrow> QLineEdit_init h tw cv p s top_widgets st
      | NewTimeEdit t p f \<Rightarrow> QTimeEdit_init h tw t p f top_widgets st
      | NewComboBox vals \<Rightarrow> QComboBox_init h tw vals top_widgets st)"

fun step :: "host \<Rightarrow> (win \<Rightarrow> 'e \<Rightarrow> qstate \<Rightarrow> qstate) \<Rightarrow> qstate \<Rightarrow> 'e event \<Rightarrow> qstate" where
  "step h orig st (Construct c tw top_widgets) = state_of (construct h c tw top_widgets st)"
| "step h orig st (Activate i underMouse) = setToEdit underMouse i st"
| "step h orig st (FocusOut i underMouse) =
     (if i < length (registry st) then focusOutEvent underMouse st else st)"
| "step h orig st (MousePress tw event underMouse) =
     call_MPE orig underMouse tw (mousePressEvent st tw) event st"
| "step h orig st (SetValue i v) =
     (if i < length (registry st)
      then st\<lparr>registry := (registry st)[i := state_of (setValue h v (registry st ! i))]\<rparr>
      else st)"

fun exec :: "host \<Rightarrow> (win \<Rightarrow> 'e \<Rightarrow> qstate \<Rightarrow> qstate) \<Rightarrow> qstate \<Rightarrow> 'e event list \<Rightarrow> qstate" where
  "exec h orig st [] = st"
| "exec h orig st (e # es) = exec h orig (step h orig st e) es"

text \<open>
  A host for the worked examples. The examples pass strings and QTime values only, so
  what \<open>str\<close> answers for other objects is never asked; the time formatting is a
  stand-in that answers with the format it is given. The original handlers of the
  examples do nothing.
\<close>

definition example_host :: host where
  "example_host = \<lparr>str_other = (\<lambda>v. ''<object>''), toString = (\<lambda>q f. f),
                    locale_format = ''HH:mm''\<rparr>"

definition no_handler :: "win \<Rightarrow> unit \<Rightarrow> qstate \<Rightarrow> qstate" where
  "no_handler tw event st = st"

text \<open>The time widget \<open>QTimeEdit(False, False, 'h:mm')\<close> builds in the empty state.\<close>

definition example_time_widget :: clickedit where
  "example_time_widget =
     registry (state_of (QTimeEdit_init example_host 0 (PBool False) (PBool False) ''h:mm'' []
        init_state)) ! 0"

section \<open>Reading the claims\<close>







text \<open>
  Worked example: \<open>QLineEdit('a')\<close> placed in window \<open>tw1\<close> and \<open>QLineEdit('b')\<close>
  in window \<open>tw2\<close>; \<open>line_widget\<close> is the widget such a call builds.
\<close>

definition line_widget :: "string \<Rightarrow> win \<Rightarrow> clickedit" where
  "line_widget s tw =
     \<lparr>suffix = PBool False, prefix_label = None, label_text = s, text_visible = True,
      input_widget = LineEdit s 32767, input_visible = False,
      current_value = Some (PStr s), display_format = [], window = tw\<rparr>"

definition line_edits :: "win \<Rightarrow> win \<Rightarrow> unit event list" where
  "line_edits tw1 tw2 =
     [Construct (NewLineEdit (PStr ''a'') (PBool False) (PBool False)) tw1 [tw1],
      Construct (NewLineEdit (PStr ''b'') (PBool False) (PBool False)) tw2 [tw1, tw2]]"





text \<open>
  Reading of claim C8. \<open>wraps\<close> counts how often a handler has been replaced: every
  replacement wraps the handler it finds. A state is patched once when every top-level
  widget on the list carries one wrapper around its original handler and every other
  one still has its original handler. \<open>same_handlers\<close>: two states agree on the list and
  on every handler.
\<close>

fun wraps :: "handler \<Rightarrow> nat" where
  "wraps Original = 0"
| "wraps (Patched self tw original_MPE) = Suc (wraps original_MPE)"

definition patched_once :: "qstate \<Rightarrow> bool" where
  "patched_once st =
     (\<forall>tw. (tw \<in> set (top_widgets_modified st) \<longrightarrow>
              (\<exists>self. mousePressEvent st tw = Patched self tw Original))
         \<and> (tw \<notin> set (top_widgets_modified st) \<longrightarrow> mousePressEvent st tw = Original))"

definition same_handlers :: "qstate \<Rightarrow> qstate \<Rightarrow> bool" where
  "same_handlers st st' =
     (top_widgets_modified st' = top_widgets_modified st \<and> mousePressEvent st' = mousePressEvent st)"

text \<open>Reading of claim C7: a prefix or suffix argument is valid when it is a string or False.\<close>

definition valid_affix :: "pyval \<Rightarrow> bool" where
  "valid_affix v = (is_str v \<or> v = PBool False)"

section \<open>Properties\<close>

subsection \<open>Helper lemmas\<close>

lemma updateCurrentValue_keeps [simp]:
  "input_widget (updateCurrentValue h w) = input_widget w"
  "input_visible (updateCurrentValue h w) = input_visible w"
  "text_visible (updateCurrentValue h w) = text_visible w"
  "window (updateCurrentValue h w) = window w"
  "suffix (updateCurrentValue h w) = suffix w"
  by (simp_all add: updateCurrentValue_def split: control.splits)

lemma store_keeps [simp]:
  "input_widget (store h c b w) = c"
  "input_visible (store h c b w) = input_visible w"
  "text_visible (store h c b w) = text_visible w"
  "window (store h c b w) = window w"
  "suffix (store h c b w) = suffix w"
  by (simp_all add: store_def)


lemma addItem_keeps [simp]: "input_visible (addItem h item w) = input_visible w"
  by (simp add: addItem_def Let_def split: control.splits)

lemma addItems_keeps [simp]: "input_visible (addItems h items w) = input_visible w"
  by (induction items arbitrary: w) simp_all

lemma patch_registry [simp]: "registry (patch self tws st) = registry st"
  by (induction self tws st rule: patch.induct) simp_all

lemma freeze_loop_length [simp]: "length (freeze_loop um k ws) = length ws"
  by (induction ws arbitrary: k) simp_all





text \<open>A constructor call leaves the registry alone or appends one widget in label mode.\<close>

lemma QClickEdit_init_cases:
  "QClickEdit_init h cls cur fmt tw cv p s tops st = Raises (TypeError prefix_error) st
   \<or> QClickEdit_init h cls cur fmt tw cv p s tops st = Raises (TypeError suffix_error) st
   \<or> QClickEdit_init h cls cur fmt tw cv p s tops st =
        (case setValue h cv (new_self h cls cur fmt tw p s) of
           Raises e self2 \<Rightarrow> Raises e (st\<lparr>registry := registry st @ [self2]\<rparr>)
         | Returns self2 \<Rightarrow>
             Returns (patch (length (registry st)) tops
                        (st\<lparr>registry := registry st @ [self2]\<rparr>)))"
  unfolding QClickEdit_init_def by (cases "is_str p \<or> p = PBool False") auto

























lemma patched_once_cong:
  "same_handlers st st' \<Longrightarrow> patched_once st \<Longrightarrow> patched_once st'"
  by (simp add: same_handlers_def patched_once_def)

lemma same_handlers_refl [simp]: "same_handlers st st"
  by (simp add: same_handlers_def)

lemma same_handlers_registry [simp]: "same_handlers st (st\<lparr>registry := r\<rparr>)"
  by (simp add: same_handlers_def)

lemma same_handlers_trans:
  "same_handlers a b \<Longrightarrow> same_handlers b c \<Longrightarrow> same_handlers a c"
  by (simp add: same_handlers_def)

lemma same_handlers_sweep [simp]: "same_handlers st (freezeInputPrecheck um st)"
  by (simp add: freezeInputPrecheck_def)

lemma same_handlers_setToEdit [simp]: "same_handlers st (setToEdit um i st)"
  by (simp add: setToEdit_def Let_def same_handlers_def freezeInputPrecheck_def)

lemma same_handlers_call_MPE:
  assumes "\<And>tw ev s. same_handlers s (orig tw ev s)"
  shows "same_handlers st (call_MPE orig um tw hdl ev st)"
proof (induction hdl)
  case Original
  show ?case using assms by simp
next
  case (Patched self parent hdl)
  then show ?case
    using same_handlers_trans[OF Patched same_handlers_sweep] by simp
qed

lemma patch_keeps_patched_once:
  "patched_once st \<Longrightarrow> patched_once (patch self tws st)"
proof (induction self tws st rule: patch.induct)
  case (1 self st)
  then show ?case by simp
next
  case (2 self tw tws st)
  show ?case
  proof (cases "tw \<in> set (top_widgets_modified st)")
    case True
    with 2 show ?thesis by simp
  next
    case False
    let ?st = "st\<lparr>top_widgets_modified := top_widgets_modified st @ [tw],
            mousePressEvent := (mousePressEvent st)(tw := Patched self tw (mousePressEvent st tw))\<rparr>"
    from False "2.prems" have "mousePressEvent st tw = Original"
      by (simp add: patched_once_def)
    with "2.prems" have "patched_once ?st"
      by (auto simp: patched_once_def)
    with False "2.IH"(2) show ?thesis by simp
  qed
qed

lemma QClickEdit_init_keeps_patched_once:
  assumes "patched_once st"
  shows "patched_once (state_of (QClickEdit_init h cls cur fmt tw cv p s tops st))"
proof -
  let ?r = "QClickEdit_init h cls cur fmt tw cv p s tops st"
  let ?self1 = "new_self h cls cur fmt tw p s"
  from QClickEdit_init_cases[of h cls cur fmt tw cv p s tops st]
  consider "?r = Raises (TypeError prefix_error) st" | "?r = Raises (TypeError suffix_error) st"
    | "?r = (case setValue h cv ?self1 of
           Raises e self2 \<Rightarrow> Raises e (st\<lparr>registry := registry st @ [self2]\<rparr>)
         | Returns self2 \<Rightarrow>
             Returns (patch (length (registry st)) tops
                        (st\<lparr>registry := registry st @ [self2]\<rparr>)))"
    by blast
  then show ?thesis
  proof cases
    case 1
    with assms show ?thesis by (simp add: state_of_def)
  next
    case 2
    with assms show ?thesis by (simp add: state_of_def)
  next
    case 3
    show ?thesis
    proof (cases "setValue h cv ?self1")
      case (Returns w)
      have "patched_once (st\<lparr>registry := registry st @ [w]\<rparr>)"
        using assms by (rule patched_once_cong[rotated]) simp
      then have "patched_once (patch (length (registry st)) tops (st\<lparr>registry := registry st @ [w]\<rparr>))"
        by (rule patch_keeps_patched_once)
      with 3 Returns show ?thesis by (simp add: state_of_def)
    next
      case (Raises e w)
      have "patched_once (st\<lparr>registry := registry st @ [w]\<rparr>)"
        using assms by (rule patched_once_cong[rotated]) simp
      with 3 Raises show ?thesis by (simp add: state_of_def)
    qed
  qed
qed

lemma construct_keeps_patched_once:
  assumes "patched_once st"
  shows "patched_once (state_of (construct h c tw tops st))"
proof (cases c)
  case (NewSpinBox cv p s)
  with assms show ?thesis
    by (simp add: construct_def QSpinBox_init_def QClickEdit_init_keeps_patched_once)
next
  case (NewLineEdit cv p s)
  with assms show ?thesis
    by (simp add: construct_def QLineEdit_init_def QClickEdit_init_keeps_patched_once)
next
  case (NewTimeEdit t p f)
  with assms show ?thesis
    by (cases "QTimeEdit_inputCheck t")
       (simp_all add: construct_def QTimeEdit_init_def QClickEdit_init_keeps_patched_once
          state_of_def[of "Raises _ _"])
next
  case (NewComboBox vals)
  show ?thesis
  proof (cases "QComboBox_inputCheck h vals")
    case (Inl e)
    with assms NewComboBox show ?thesis
      by (simp add: construct_def QComboBox_init_def state_of_def)
  next
    case (Inr r)
    obtain cur items where r: "r = (cur, items)" by (cases r)
    show ?thesis
    proof (cases cur)
      case None
      with assms NewComboBox Inr r show ?thesis
        by (simp add: construct_def QComboBox_init_def state_of_def)
    next
      case (Some cv)
      let ?b = "QClickEdit_init h ComboBoxV (Some cv) [] tw cv (PBool False) (PBool False) tops st"
      have b: "patched_once (state_of ?b)"
        using assms by (rule QClickEdit_init_keeps_patched_once)
      show ?thesis
      proof (cases ?b)
        case (Returns st1)
        with b have "patched_once st1" by (simp add: state_of_def)
        then have "patched_once (st1\<lparr>registry :=
                      (registry st1)[length (registry st) :=
                         addItems h items (registry st1 ! length (registry st))]\<rparr>)"
          by (rule patched_once_cong[rotated]) simp
        with NewComboBox Inr r Some Returns show ?thesis
          by (simp add: construct_def QComboBox_init_def state_of_def)
      next
        case (Raises e st1)
        with b have "patched_once st1" by (simp add: state_of_def)
        with NewComboBox Inr r Some Raises show ?thesis
          by (simp add: construct_def QComboBox_init_def state_of_def)
      qed
    qed
  qed
qed

lemma step_keeps_patched_once:
  assumes "\<And>tw ev s. same_handlers s (orig tw ev s)" and "patched_once st"
  shows "patched_once (step h orig st e)"
proof (cases e)
  case (Construct c tw tops)
  with assms(2) show ?thesis by (simp add: construct_keeps_patched_once)
next
  case (Activate i um)
  with assms(2) show ?thesis
    using patched_once_cong[OF same_handlers_setToEdit] by simp
next
  case (FocusOut i um)
  with assms(2) show ?thesis
    using patched_once_cong[OF same_handlers_sweep] by (simp add: focusOutEvent_def)
next
  case (MousePress tw ev um)
  have "same_handlers st (call_MPE orig um tw (mousePressEvent st tw) ev st)"
    using assms(1) by (rule same_handlers_call_MPE)
  with assms(2) MousePress show ?thesis
    using patched_once_cong by simp
next
  case (SetValue i v)
  with assms(2) show ?thesis
    using patched_once_cong[OF same_handlers_registry] by simp
qed

lemma exec_keeps_patched_once:
  assumes "\<And>tw ev s. same_handlers s (orig tw ev s)"
  shows "patched_once st \<Longrightarrow> patched_once (exec h orig st es)"
proof (induction es arbitrary: st)
  case Nil
  then show ?case by simp
next
  case (Cons e es)
  from Cons.prems have "patched_once (step h orig st e)"
    using step_keeps_patched_once[of orig st h e] assms by simp
  then show ?case using Cons.IH by simp
qed

lemma new_line_edit_step:
  "length s \<le> 32767 \<Longrightarrow>
   step h orig st (Construct (NewLineEdit (PStr s) (PBool False) (PBool False)) tw tops)
     = patch (length (registry st)) tops (st\<lparr>registry := registry st @ [line_widget s tw]\<rparr>)"
  by (cases "s = []")
     (simp_all add: construct_def QLineEdit_init_def QClickEdit_init_def new_self_def is_str_def
        widget_new_def createTextWidget_def createInputWidget_def setValue_def store_def
        updateCurrentValue_def addSuffix_def py_str_def getValue_def state_of_def Let_def
        line_widget_def)

lemma line_edits_handlers:
  "top_widgets_modified (exec h orig init_state (line_edits 0 2)) = [0, 2]"
  "mousePressEvent (exec h orig init_state (line_edits 0 2)) 0 = Patched 0 0 Original"
  "mousePressEvent (exec h orig init_state (line_edits 0 2)) 2 = Patched 1 2 Original"
  by (simp_all add: line_edits_def new_line_edit_step init_state_def del: step.simps)

lemma registered_differs: "st\<lparr>registry := registry st @ [w]\<rparr> \<noteq> st"
proof
  assume "st\<lparr>registry := registry st @ [w]\<rparr> = st"
  then have "registry (st\<lparr>registry := registry st @ [w]\<rparr>) = registry st" by simp
  then show False by simp
qed

lemma patch_differs: "patch self tws (st\<lparr>registry := registry st @ [w]\<rparr>) \<noteq> st"
proof
  assume "patch self tws (st\<lparr>registry := registry st @ [w]\<rparr>) = st"
  then have "registry (patch self tws (st\<lparr>registry := registry st @ [w]\<rparr>)) = registry st" by simp
  then show False by simp
qed

lemma QClickEdit_init_valid:
  assumes "valid_affix p" and "valid_affix s"
  shows "QClickEdit_init h cls cur fmt tw cv p s tops st =
        (case setValue h cv (new_self h cls cur fmt tw p s) of
           Raises e self2 \<Rightarrow> Raises e (st\<lparr>registry := registry st @ [self2]\<rparr>)
         | Returns self2 \<Rightarrow>
             Returns (patch (length (registry st)) tops
                        (st\<lparr>registry := registry st @ [self2]\<rparr>)))"
  using assms unfolding QClickEdit_init_def valid_affix_def by auto

lemma QClickEdit_init_valid_no_check_error:
  assumes "valid_affix p" and "valid_affix s"
  shows "QClickEdit_init h cls cur fmt tw cv p s tops st \<noteq> Raises e st"
  unfolding QClickEdit_init_valid[OF assms]
  by (cases "setValue h cv (new_self h cls cur fmt tw p s)")
     (simp_all add: registered_differs)

lemma addItems_nonempty:
  "input_widget w = ComboBox its c \<Longrightarrow> its \<noteq> [] \<Longrightarrow>
   addItems h items w = w\<lparr>input_widget := ComboBox (its @ items) c\<rparr>"
proof (induction items arbitrary: w its)
  case Nil
  then show ?case by simp
next
  case (Cons item items)
  from Cons.prems have a: "addItem h item w = w\<lparr>input_widget := ComboBox (its @ [item]) c\<rparr>"
    by (simp add: addItem_def store_def)
  have "addItems h items (w\<lparr>input_widget := ComboBox (its @ [item]) c\<rparr>)
      = (w\<lparr>input_widget := ComboBox (its @ [item]) c\<rparr>)\<lparr>input_widget := ComboBox ((its @ [item]) @ items) c\<rparr>"
    by (rule Cons.IH) simp_all
  with a show ?case by simp
qed

text \<open>The list branch does what the single-value branch misses.\<close>

lemma QComboBox_init_list:
  "\<exists>st' w. QComboBox_init h tw (PList (v0 # rest)) top_widgets st = Returns st'
     \<and> registry st' = registry st @ [w]
     \<and> input_widget w = ComboBox (map (py_str h) (v0 # rest)) 0
     \<and> getValue w = PStr (py_str h v0)
     \<and> label_text w = py_str h v0"
proof -
  let ?s = "py_str h v0"
  let ?w0 = "new_self h ComboBoxV (Some (PStr ?s)) [] tw (PBool False) (PBool False)"
  have w0: "input_widget ?w0 = ComboBox [] (- 1)"
    by (simp add: new_self_def createTextWidget_def createInputWidget_def widget_new_def)
  have sv: "setValue h (PStr ?s) ?w0 = Returns (?w0\<lparr>label_text := ?s\<rparr>)"
    using w0 by (simp add: setValue_def Let_def valid_index_def store_def py_str_def)
  let ?w1 = "?w0\<lparr>label_text := ?s\<rparr>"
  have first: "addItem h ?s ?w1 = ?w1\<lparr>input_widget := ComboBox [?s] 0, label_text := ?s\<rparr>"
    using w0 by (simp add: addItem_def store_def updateCurrentValue_def currentText_def)
  let ?w2 = "?w1\<lparr>input_widget := ComboBox [?s] 0, label_text := ?s\<rparr>"
  have rest: "addItems h (map (py_str h) rest) ?w2
      = ?w2\<lparr>input_widget := ComboBox ([?s] @ map (py_str h) rest) 0\<rparr>"
    by (rule addItems_nonempty) simp_all
  let ?w3 = "?w2\<lparr>input_widget := ComboBox ([?s] @ map (py_str h) rest) 0\<rparr>"
  have init: "QClickEdit_init h ComboBoxV (Some (PStr ?s)) [] tw (PStr ?s) (PBool False) (PBool False)
        top_widgets st
      = Returns (patch (length (registry st)) top_widgets (st\<lparr>registry := registry st @ [?w1]\<rparr>))"
    using sv by (simp add: QClickEdit_init_def)
  have "QComboBox_init h tw (PList (v0 # rest)) top_widgets st
      = Returns ((patch (length (registry st)) top_widgets (st\<lparr>registry := registry st @ [?w1]\<rparr>))
           \<lparr>registry := registry st @ [?w3]\<rparr>)"
    using init first rest by (simp add: QComboBox_init_def QComboBox_inputCheck_def)
  moreover have "input_widget ?w3 = ComboBox (map (py_str h) (v0 # rest)) 0" by simp
  moreover have "getValue ?w3 = PStr ?s" by (simp add: getValue_def currentText_def)
  moreover have "label_text ?w3 = ?s" by simp
  ultimately show ?thesis by simp
qed

lemma QTimeEdit_inputCheck_accepts:
  "QTimeEdit_inputCheck (PTime d) = Inr (PQTime (QTime_of_time d))"
  "QTimeEdit_inputCheck (PQTime q) = Inr (PQTime q)"
  "QTimeEdit_inputCheck (PBool False) = Inr (PQTime (QTime 0 0 0 0))"
  by (simp_all add: QTimeEdit_inputCheck_def)

text \<open>The constructor passes the coerced value on: it accepts what \<open>setValue\<close> refuses.\<close>

lemma QTimeEdit_init_coerces:
  assumes "valid_affix p" and "QTimeEdit_inputCheck v = Inr (PQTime q)" and "isValid q"
  shows "\<exists>st' w. QTimeEdit_init h tw v p fmt tops st = Returns st'
           \<and> registry st' = registry st @ [w]
           \<and> getValue w = PQTime q \<and> current_value w = Some (PQTime q)"
proof -
  let ?w0 = "new_self h TimeEditV (Some (PQTime q)) fmt tw p (PBool False)"
  have w0: "input_widget ?w0 = TimeEdit (QTime 0 0 0 0) (locale_format h)"
    by (simp add: new_self_def createTextWidget_def createInputWidget_def widget_new_def)
  have f: "valid_affix (PBool False)" by (simp add: valid_affix_def)
  let ?w1 = "store h (TimeEdit q (locale_format h)) (q \<noteq> QTime 0 0 0 0)
               (?w0\<lparr>current_value := Some (PQTime q), label_text := toString h q ''h:mm:ss a''\<rparr>)"
  have sv: "setValue h (PQTime q) ?w0 = Returns ?w1"
    using w0 assms(3) by (simp add: setValue_def QTimeEdit_inputCheck_accepts)
  have "QTimeEdit_init h tw v p fmt tops st
      = Returns (patch (length (registry st)) tops (st\<lparr>registry := registry st @ [?w1]\<rparr>))"
    using assms(2) sv by (simp add: QTimeEdit_init_def QClickEdit_init_valid[OF assms(1) f])
  moreover have "getValue ?w1 = PQTime q" by (simp add: getValue_def)
  moreover have "current_value ?w1 = Some (PQTime q)"
    by (simp add: store_def updateCurrentValue_def)
  ultimately show ?thesis by simp
qed


subsection \<open>Type errors of the time variant\<close>


lemma QTimeEdit_inputCheck_rejects:
  "(\<forall>t. v \<noteq> PTime t) \<Longrightarrow> (\<forall>q. v \<noteq> PQTime q) \<Longrightarrow> v \<noteq> PBool False \<Longrightarrow>
   QTimeEdit_inputCheck v = Inl (TypeError time_error)"
  by (cases v) (auto simp: QTimeEdit_inputCheck_def)

text \<open>
  Claim C10. \<open>QTimeEdit.setValue\<close> is atomic on a type error: for an argument that is
  neither a \<open>datetime.time\<close>, a QTime nor False it raises TypeError, and the widget it
  leaves behind is the widget it was given: caption, control (so the control's time) and
  every other attribute are unchanged.
\<close>

theorem QTimeEdit_setValue_atomic:
  assumes "input_widget w = TimeEdit t f"
    and "\<forall>d. v \<noteq> PTime d" and "\<forall>q. v \<noteq> PQTime q" and "v \<noteq> PBool False"
  shows "setValue h v w = Raises (TypeError time_error) w"
  using assms by (simp add: setValue_def QTimeEdit_inputCheck_rejects)

lemma example_time_widget_eq:
  "example_time_widget =
     \<lparr>suffix = PBool False, prefix_label = None, label_text = ''h:mm:ss a'',
      text_visible = True, input_widget = TimeEdit (Mds 0) ''HH:mm'', input_visible = False,
      current_value = Some (PQTime (Mds 0)), display_format = ''h:mm'', window = 0\<rparr>"
  by (simp add: example_time_widget_def QTimeEdit_init_def QTimeEdit_inputCheck_def
        QClickEdit_init_def new_self_def is_str_def QTime_def widget_new_def createTextWidget_def
        createInputWidget_def setValue_def example_host_def isValid_def store_def
        init_state_def state_of_def Let_def)

theorem QTimeEdit_setValue_atomic_witness:
  "input_widget example_time_widget = TimeEdit (Mds 0) ''HH:mm'' \<and>
   setValue example_host (PStr ''noon'') example_time_widget
     = Raises (TypeError time_error) example_time_widget"
  using QTimeEdit_setValue_atomic [of example_time_widget "Mds 0" "''HH:mm''"
      "PStr ''noon''" example_host]
  by (simp add: example_time_widget_eq)


subsection \<open>One editor at a time\<close>






subsection \<open>Activating a label\<close>





subsection \<open>Losing focus\<close>





subsection \<open>Setting and getting a value\<close>






subsection \<open>The time variant's coercion\<close>

text \<open>
  Claim C6 at \<open>setValue\<close>. The check coerces False to midnight and a \<open>datetime.time\<close>
  to a QTime and stores the result in \<open>_current_value\<close>, but \<open>setValue\<close> then calls
  \<open>toString\<close> on the argument itself: for False and for a \<open>datetime.time\<close> it raises
  AttributeError, with the caption and the control's time as they were. (The constructor
  passes on the coerced value instead, lemma \<open>QTimeEdit_init_coerces\<close>.)
\<close>

theorem QTimeEdit_setValue_uncoerced:
  assumes "input_widget w = TimeEdit t f"
  shows "setValue h (PBool False) w =
           Raises (AttributeError ''bool object has no attribute toString'')
             (w\<lparr>current_value := Some (PQTime (QTime 0 0 0 0))\<rparr>)
     \<and> setValue h (PTime d) w =
           Raises (AttributeError ''datetime.time object has no attribute toString'')
             (w\<lparr>current_value := Some (PQTime (QTime_of_time d))\<rparr>)"
  using assms by (simp add: setValue_def QTimeEdit_inputCheck_accepts)

theorem QTimeEdit_setValue_uncoerced_witness:
  "input_widget example_time_widget = TimeEdit (Mds 0) ''HH:mm''
   \<and> setValue example_host (PBool False) example_time_widget =
           Raises (AttributeError ''bool object has no attribute toString'')
             (example_time_widget\<lparr>current_value := Some (PQTime (QTime 0 0 0 0))\<rparr>)
   \<and> getValue (state_of (setValue example_host (PTime (Time 1 0 0 0)) example_time_widget))
        = PQTime (Mds 0)"
proof -
  have w: "input_widget example_time_widget = TimeEdit (Mds 0) ''HH:mm''"
    by (simp add: example_time_widget_eq)
  from QTimeEdit_setValue_uncoerced[OF w, of example_host "Time 1 0 0 0"] w
  show ?thesis by (simp add: state_of_def getValue_def)
qed


subsection \<open>The constructor's type checks\<close>

text \<open>
  Claim C7. \<open>QClickEdit.__init__\<close> raises the prefix TypeError, before anything is
  changed, exactly when \<open>type_of_field\<close> is neither a string nor False; it raises the
  suffix TypeError, before anything is changed, exactly when the prefix is valid and the
  suffix is neither a string nor False; with both valid the checks raise nothing and the
  outcome is that of the rest of the constructor.
\<close>

theorem QClickEdit_init_type_checks:
  "(QClickEdit_init h cls cur fmt tw cv p s tops st = Raises (TypeError prefix_error) st
      \<longleftrightarrow> \<not> valid_affix p)
   \<and> (QClickEdit_init h cls cur fmt tw cv p s tops st = Raises (TypeError suffix_error) st
      \<longleftrightarrow> valid_affix p \<and> \<not> valid_affix s)
   \<and> (valid_affix p \<and> valid_affix s \<longrightarrow>
        QClickEdit_init h cls cur fmt tw cv p s tops st =
        (case setValue h cv (new_self h cls cur fmt tw p s) of
           Raises e self2 \<Rightarrow> Raises e (st\<lparr>registry := registry st @ [self2]\<rparr>)
         | Returns self2 \<Rightarrow>
             Returns (patch (length (registry st)) tops
                        (st\<lparr>registry := registry st @ [self2]\<rparr>))))"
proof (cases "valid_affix p")
  case False
  then have "QClickEdit_init h cls cur fmt tw cv p s tops st = Raises (TypeError prefix_error) st"
    by (simp add: QClickEdit_init_def valid_affix_def)
  with False show ?thesis by (simp add: prefix_error_def suffix_error_def)
next
  case p: True
  show ?thesis
  proof (cases "valid_affix s")
    case False
    with p have "QClickEdit_init h cls cur fmt tw cv p s tops st = Raises (TypeError suffix_error) st"
      unfolding QClickEdit_init_def valid_affix_def by auto
    with p False show ?thesis by (simp add: prefix_error_def suffix_error_def)
  next
    case True
    from QClickEdit_init_valid[OF p True] QClickEdit_init_valid_no_check_error[OF p True]
    show ?thesis using p True by simp
  qed
qed

theorem QClickEdit_init_type_checks_witness:
  "\<not> valid_affix (PInt 5) \<and> valid_affix (PStr ''Name'') \<and> valid_affix (PBool False)
   \<and> \<not> valid_affix (PBool True)
   \<and> QClickEdit_init example_host LineEditV None [] 0 (PStr ''a'') (PInt 5) (PBool False) [0]
        init_state = Raises (TypeError prefix_error) init_state
   \<and> QClickEdit_init example_host LineEditV None [] 0 (PStr ''a'') (PStr ''Name'') (PBool True) [0]
        init_state = Raises (TypeError suffix_error) init_state
   \<and> QClickEdit_init example_host LineEditV None [] 0 (PStr ''a'') (PStr ''Name'') (PBool False) [0]
        init_state \<noteq> Raises (TypeError prefix_error) init_state"
proof -
  have v: "\<not> valid_affix (PInt 5)" "valid_affix (PStr ''Name'')" "valid_affix (PBool False)"
      "\<not> valid_affix (PBool True)"
    by (simp_all add: valid_affix_def is_str_def)
  from QClickEdit_init_type_checks[of example_host LineEditV None "[]" 0 "PStr ''a''" "PInt 5"
      "PBool False" "[0]" init_state] v
  have a: "QClickEdit_init example_host LineEditV None [] 0 (PStr ''a'') (PInt 5) (PBool False) [0]
        init_state = Raises (TypeError prefix_error) init_state" by blast
  from QClickEdit_init_type_checks[of example_host LineEditV None "[]" 0 "PStr ''a''" "PStr ''Name''"
      "PBool True" "[0]" init_state] v
  have b: "QClickEdit_init example_host LineEditV None [] 0 (PStr ''a'') (PStr ''Name'') (PBool True) [0]
        init_state = Raises (TypeError suffix_error) init_state" by blast
  from QClickEdit_init_type_checks[of example_host LineEditV None "[]" 0 "PStr ''a''" "PStr ''Name''"
      "PBool False" "[0]" init_state] v
  have c: "QClickEdit_init example_host LineEditV None [] 0 (PStr ''a'') (PStr ''Name'') (PBool False) [0]
        init_state \<noteq> Raises (TypeError prefix_error) init_state" by blast
  from v a b c show ?thesis by (simp only: simp_thms)
qed


subsection \<open>Patching the top-level widgets\<close>

text \<open>
  Claim C8. Along every run from the empty state whose original handlers leave the list
  and the handlers alone, the \<open>mousePressEvent\<close> of every top-level widget has been
  replaced at most once; a widget on the list of modified widgets has been replaced
  exactly once, and calling its handler runs the original handler on the event and then
  the sweep; a widget not on the list still has its original handler.
\<close>

theorem top_widget_patched_once:
  assumes "\<forall>tw ev s. same_handlers s (orig tw ev s)"
  shows "wraps (mousePressEvent (exec h orig init_state es) tw) \<le> 1
     \<and> (tw \<in> set (top_widgets_modified (exec h orig init_state es)) \<longrightarrow>
          wraps (mousePressEvent (exec h orig init_state es) tw) = 1
          \<and> call_MPE orig um tw (mousePressEvent (exec h orig init_state es) tw) ev s
               = freezeInputPrecheck um (orig tw ev s))
     \<and> (tw \<notin> set (top_widgets_modified (exec h orig init_state es)) \<longrightarrow>
          mousePressEvent (exec h orig init_state es) tw = Original)"
proof -
  have "patched_once init_state" by (simp add: patched_once_def init_state_def)
  then have inv: "patched_once (exec h orig init_state es)"
    using exec_keeps_patched_once[of orig init_state h es] assms by simp
  show ?thesis
  proof (cases "tw \<in> set (top_widgets_modified (exec h orig init_state es))")
    case True
    with inv obtain self where "mousePressEvent (exec h orig init_state es) tw = Patched self tw Original"
      by (auto simp: patched_once_def)
    with True show ?thesis by simp
  next
    case False
    with inv have "mousePressEvent (exec h orig init_state es) tw = Original"
      by (simp add: patched_once_def)
    with False show ?thesis by simp
  qed
qed

theorem top_widget_patched_once_witness:
  "0 \<in> set (top_widgets_modified (exec example_host no_handler init_state (line_edits 0 2)))
   \<and> mousePressEvent (exec example_host no_handler init_state (line_edits 0 2)) 0
        = Patched 0 0 Original
   \<and> wraps (mousePressEvent (exec example_host no_handler init_state (line_edits 0 2)) 0) = 1
   \<and> call_MPE no_handler (\<lambda>j. False) 0
        (mousePressEvent (exec example_host no_handler init_state (line_edits 0 2)) 0) () init_state
        = freezeInputPrecheck (\<lambda>j. False) (no_handler 0 () init_state)"
proof -
  let ?st = "exec example_host no_handler init_state (line_edits 0 2)"
  have orig: "\<forall>tw ev s. same_handlers s (no_handler tw ev s)"
    by (simp add: no_handler_def)
  have m: "0 \<in> set (top_widgets_modified ?st)" by (simp add: line_edits_handlers)
  have p: "mousePressEvent ?st 0 = Patched 0 0 Original" by (simp add: line_edits_handlers)
  from top_widget_patched_once[OF orig, of example_host "line_edits 0 2" 0 "\<lambda>j. False" "()" init_state] m
  have "wraps (mousePressEvent ?st 0) = 1"
    and "call_MPE no_handler (\<lambda>j. False) 0 (mousePressEvent ?st 0) () init_state
        = freezeInputPrecheck (\<lambda>j. False) (no_handler 0 () init_state)"
    by blast+
  with m p show ?thesis by (simp only: simp_thms)
qed


subsection \<open>The choice variant's constructor\<close>

text \<open>
  Claim C9. \<open>QComboBox([])\<close> raises IndexError, from \<open>values[0]\<close> in \<open>_inputCheck\<close>,
  before anything is changed.
\<close>

theorem QComboBox_init_empty_list:
  "QComboBox_init h tw (PList []) top_widgets st
     = Raises (IndexError ''list index out of range'') st"
  by (simp add: QComboBox_init_def QComboBox_inputCheck_def)

theorem QComboBox_init_empty_list_witness:
  "QComboBox_init example_host 0 (PList []) [0] init_state
     = Raises (IndexError ''list index out of range'') init_state"
  using QComboBox_init_empty_list [of example_host 0 "[0]" init_state] by simp

text \<open>
  Claim C5 at a single value. For an argument that is not a list, \<open>_inputCheck\<close> assigns
  no \<open>_current_value\<close>, and the constructor raises AttributeError when it reads the
  attribute: no widget is built. (For a non-empty list the constructor does what the claim
  says, lemma \<open>QComboBox_init_list\<close>.)
\<close>

theorem QComboBox_init_single_value:
  assumes "\<forall>vs. vals \<noteq> PList vs"
  shows "QComboBox_init h tw vals top_widgets st
     = Raises (AttributeError ''QComboBox object has no attribute _current_value'') st"
  using assms by (cases vals) (simp_all add: QComboBox_init_def QComboBox_inputCheck_def)

theorem QComboBox_init_single_value_witness:
  "QComboBox_init example_host 0 (PStr ''abc'') [0] init_state
     = Raises (AttributeError ''QComboBox object has no attribute _current_value'') init_state"
  using QComboBox_init_single_value [of "PStr ''abc''" example_host 0 "[0]" init_state] by simp


end
